theory Spec2Isabelle
  imports Complex_Main
begin

section \<open>Values, arrays and errors\<close>

text \<open>
  The module \<^verbatim>\<open>qcmon/utilities.py\<close> works on two-dimensional numpy arrays: the data
  (voxels by timepoints) and the mask (voxels by one). An array is modelled by its rows
  together with its number of columns, so that an array with no rows still has a width,
  as \<^verbatim>\<open>np.shape(a)[1]\<close> has.

  The entries of the inputs are finite numbers and arithmetic on them is exact: they are
  modelled as reals. Rounding, overflow and the sign of zero are not modelled. Where numpy
  produces a value that is not a finite number (a mean over nothing, a division by zero)
  the result is a value of \<open>npfloat\<close>.
\<close>

record 'a ndarray =
  ncols :: nat
  rows :: "'a list list"

definition shape0 :: "'a ndarray \<Rightarrow> nat" where
  "shape0 a = length (rows a)"

definition shape1 :: "'a ndarray \<Rightarrow> nat" where
  "shape1 a = ncols a"

definition wf_array :: "'a ndarray \<Rightarrow> bool" where
  "wf_array a = list_all (\<lambda>r. length r = ncols a) (rows a)"

datatype npfloat = Num real | NaN | PosInf | NegInf

text \<open>
  Every \<^verbatim>\<open>raise Exception(...)\<close> of the module is a value of \<open>error\<close>, named after the
  kind of failure: the grid check of \<^verbatim>\<open>check_dims\<close> and the size check of
  \<^verbatim>\<open>translate\<close> (\<open>ShapeMismatch\<close>), \<^verbatim>\<open>check_mask\<close> (\<open>InvalidMask\<close>), the rule and
  threshold checks of \<^verbatim>\<open>maskdata\<close> (\<open>InvalidArgument\<close>, with the argument refused).
  \<open>IndexError\<close> and \<open>ValueError\<close> are the exceptions numpy itself raises: a row index out
  of range, operands that do not broadcast, the minimum of an empty array.
\<close>

datatype arg = RuleArg | ThresholdArg

datatype error = ShapeMismatch | InvalidMask | InvalidArgument arg | IndexError | ValueError

text \<open>
  The \<^verbatim>\<open>threshold\<close> argument of \<^verbatim>\<open>maskdata\<close> is dynamically typed. The function
  accepts a list only; each element \<^verbatim>\<open>t\<close> of the list is compared with the mask, and is
  a number or itself a list of numbers (which numpy broadcasts against the mask).
  \<open>Bare\<close> stands for any value that is not a list, such as a number on its own.
\<close>

datatype elem = Scalar real | Vec "real list"

datatype threshold = Bare real | ThrList "elem list"

section \<open>The numpy operations used by the module\<close>

text \<open>\<^verbatim>\<open>np.unique\<close>: the sorted distinct values of an array.\<close>

definition np_unique :: "'a::linorder list \<Rightarrow> 'a list" where
  "np_unique xs = sort (remdups xs)"

text \<open>
  \<^verbatim>\<open>mask <op> t\<close>: an elementwise comparison after broadcasting. A number is compared
  with every entry. A list of \<open>n\<close> numbers is matched with the \<open>k\<close> columns of the mask:
  entry by entry when \<open>k = n\<close>, stretched when one of them is \<open>1\<close>, and refused otherwise
  (\<open>None\<close>).
\<close>

fun broadcast_cmp :: "(real \<Rightarrow> real \<Rightarrow> bool) \<Rightarrow> real ndarray \<Rightarrow> elem \<Rightarrow> bool list list option" where
  "broadcast_cmp cmp msk (Scalar t) = Some (map (map (\<lambda>m. cmp m t)) (rows msk))"
| "broadcast_cmp cmp msk (Vec vs) =
     (if ncols msk = length vs then Some (map (\<lambda>r. map2 cmp r vs) (rows msk))
      else if ncols msk = 1 then Some (map (\<lambda>r. concat (map (\<lambda>m. map (cmp m) vs) r)) (rows msk))
      else if length vs = 1 then Some (map (map (\<lambda>m. cmp m (hd vs))) (rows msk))
      else None)"

text \<open>
  \<^verbatim>\<open>np.where(c)[0]\<close> for a two-dimensional boolean array: the row index of every true
  entry, in row-major order (a row with several true entries is listed several times).
\<close>

definition np_where0 :: "bool list list \<Rightarrow> nat list" where
  "np_where0 c = concat (map (\<lambda>i. replicate (length (filter id (c ! i))) i) [0..<length c])"

text \<open>\<^verbatim>\<open>np.where(b)[0]\<close> for a one-dimensional boolean array: the indices of the true entries.\<close>

definition np_where1 :: "bool list \<Rightarrow> nat list" where
  "np_where1 b = filter (\<lambda>i. b ! i) [0..<length b]"

text \<open>\<^verbatim>\<open>np.sum(data, axis=1)\<close>: the sum of each row.\<close>

definition np_sum1 :: "real ndarray \<Rightarrow> real list" where
  "np_sum1 a = map sum_list (rows a)"

text \<open>\<^verbatim>\<open>np.setdiff1d(a, b)\<close>: the sorted distinct values of \<open>a\<close> that are not in \<open>b\<close>.\<close>

definition np_setdiff1d :: "nat list \<Rightarrow> nat list \<Rightarrow> nat list" where
  "np_setdiff1d a b = filter (\<lambda>i. i \<notin> set b) (np_unique a)"

text \<open>
  \<^verbatim>\<open>data[idx, :]\<close>: the rows at the given indices, in the order given. The index of
  \<^verbatim>\<open>maskdata\<close> grows from \<^verbatim>\<open>np.array([])\<close>, so numpy holds its whole numbers as floats;
  the numpy the module was written for takes them as row indices, and they are modelled
  as natural numbers.
\<close>

definition take_rows :: "'a ndarray \<Rightarrow> nat list \<Rightarrow> error + 'a ndarray" where
  "take_rows a idx =
     (if list_all (\<lambda>i. i < shape0 a) idx
      then Inr \<lparr>ncols = ncols a, rows = map (\<lambda>i. rows a ! i) idx\<rparr>
      else Inl IndexError)"

section \<open>Masking\<close>

definition check_dims :: "real ndarray \<Rightarrow> real ndarray \<Rightarrow> error + unit" where
  "check_dims data msk = (if shape0 data \<noteq> shape0 msk then Inl ShapeMismatch else Inr ())"

definition check_mask :: "real ndarray \<Rightarrow> error + unit" where
  "check_mask msk = (if shape1 msk > 1 then Inl InvalidMask else Inr ())"

text \<open>
  The loop of \<^verbatim>\<open>maskdata\<close> over the thresholds, with the index collected so far. The
  index starts as the empty array; each threshold appends the voxels it selects and
  \<^verbatim>\<open>np.unique\<close> sorts and deduplicates the whole.
\<close>

fun compute_idx :: "real ndarray \<Rightarrow> string \<Rightarrow> elem list \<Rightarrow> nat list \<Rightarrow> error + nat list" where
  "compute_idx msk rule [] idx = Inr idx"
| "compute_idx msk rule (t # ts) idx =
     (if rule = ''='' then
        (case broadcast_cmp (\<lambda>m v. m = v) msk t of
           None \<Rightarrow> Inl ValueError
         | Some c \<Rightarrow> compute_idx msk rule ts (np_unique (idx @ np_where0 c)))
      else if rule = ''>'' then
        (case broadcast_cmp (\<lambda>m v. m > v) msk t of
           None \<Rightarrow> Inl ValueError
         | Some c \<Rightarrow> compute_idx msk rule ts (np_unique (idx @ np_where0 c)))
      else if rule = ''<'' then
        (case broadcast_cmp (\<lambda>m v. m < v) msk t of
           None \<Rightarrow> Inl ValueError
         | Some c \<Rightarrow> compute_idx msk rule ts (np_unique (idx @ np_where0 c)))
      else compute_idx msk rule ts idx)"

definition maskdata :: "real ndarray \<Rightarrow> real ndarray \<Rightarrow> string \<Rightarrow> threshold \<Rightarrow> error + (real ndarray \<times> nat list)" where
  "maskdata data msk rule threshold =
     (case check_dims data msk of
        Inl e \<Rightarrow> Inl e
      | Inr _ \<Rightarrow>
         (case check_mask msk of
            Inl e \<Rightarrow> Inl e
          | Inr _ \<Rightarrow>
             (if \<not> (rule = ''='' \<or> rule = ''>'' \<or> rule = ''<'') then Inl (InvalidArgument RuleArg)
              else
                (case threshold of
                   Bare _ \<Rightarrow> Inl (InvalidArgument ThresholdArg)
                 | ThrList ts \<Rightarrow>
                    (case compute_idx msk rule ts [] of
                       Inl e \<Rightarrow> Inl e
                     | Inr idx0 \<Rightarrow>
                        (let idx_zeros = np_where1 (map (\<lambda>s. s = 0) (np_sum1 data));
                             idx = np_setdiff1d idx0 idx_zeros
                         in (case take_rows data idx of
                               Inl e \<Rightarrow> Inl e
                             | Inr d \<Rightarrow> Inr (d, idx))))))))"

text \<open>The comparison chosen by a valid rule; the three branches of the loop differ in it only.\<close>

definition rule_op :: "string \<Rightarrow> real \<Rightarrow> real \<Rightarrow> bool" where
  "rule_op rule = (if rule = ''='' then (\<lambda>m v. m = v) else if rule = ''>'' then (\<lambda>m v. m > v) else (\<lambda>m v. m < v))"

definition valid_rule :: "string \<Rightarrow> bool" where
  "valid_rule rule = (rule = ''='' \<or> rule = ''>'' \<or> rule = ''<'')"

section \<open>Mean time series of a region\<close>

text \<open>
  The \<^verbatim>\<open>val\<close> argument of \<^verbatim>\<open>get_mean_roi\<close> is dynamically typed as well: a Python
  \<^verbatim>\<open>int\<close>, any other number (a float, a numpy scalar), or a list of numbers. Only a value
  whose type is exactly \<^verbatim>\<open>int\<close> is wrapped in a list; whatever it is then, it is wrapped
  once more as the single threshold handed to \<^verbatim>\<open>maskdata\<close>.
\<close>

datatype label = PyInt int | PyNum real | PyList "real list"

text \<open>
  \<^verbatim>\<open>np.nanmean(data, axis=0)\<close>: the mean of each column. The entries are finite, so
  none is skipped; over no rows numpy answers NaN for every column (with a warning).
\<close>

definition np_nanmean0 :: "real ndarray \<Rightarrow> npfloat list" where
  "np_nanmean0 a =
     map (\<lambda>j. if rows a = [] then NaN
              else Num (sum_list (map (\<lambda>r. r ! j) (rows a)) / real (length (rows a))))
       [0..<ncols a]"

definition get_mean_roi :: "real ndarray \<Rightarrow> real ndarray \<Rightarrow> label \<Rightarrow> error + npfloat list" where
  "get_mean_roi data msk val =
     (let val' = (case val of PyInt i \<Rightarrow> Vec [real_of_int i] | PyNum x \<Rightarrow> Scalar x | PyList vs \<Rightarrow> Vec vs)
      in (case maskdata data msk ''='' (ThrList [val']) of
            Inl e \<Rightarrow> Inl e
          | Inr (d, idx) \<Rightarrow> Inr (np_nanmean0 d)))"

text \<open>The value the mask holds for voxel \<open>i\<close>.\<close>

definition mask_value :: "real ndarray \<Rightarrow> nat \<Rightarrow> real" where
  "mask_value msk i = hd (rows msk ! i)"

text \<open>
  The direct computation the specification compares \<^verbatim>\<open>get_mean_roi\<close> with: the
  column-wise mean over all rows of the data whose mask value equals \<open>v\<close>.
\<close>

definition mean_where_equal :: "real ndarray \<Rightarrow> real ndarray \<Rightarrow> real \<Rightarrow> npfloat list" where
  "mean_where_equal data msk v =
     np_nanmean0 \<lparr>ncols = ncols data,
       rows = map (\<lambda>i. rows data ! i) (filter (\<lambda>i. mask_value msk i = v) [0..<shape0 data])\<rparr>"

text \<open>The same over the rows whose mask value equals \<open>v\<close> and whose sum is not zero.\<close>

definition mean_where_equal_nonzero :: "real ndarray \<Rightarrow> real ndarray \<Rightarrow> real \<Rightarrow> npfloat list" where
  "mean_where_equal_nonzero data msk v =
     np_nanmean0 \<lparr>ncols = ncols data,
       rows = map (\<lambda>i. rows data ! i)
         (filter (\<lambda>i. mask_value msk i = v \<and> sum_list (rows data ! i) \<noteq> 0) [0..<shape0 data])\<rparr>"

text \<open>The numbers a threshold element and a label stand for.\<close>

definition elem_values :: "elem \<Rightarrow> real list" where
  "elem_values t = (case t of Scalar v \<Rightarrow> [v] | Vec vs \<Rightarrow> vs)"

definition label_values :: "label \<Rightarrow> real list" where
  "label_values val = (case val of PyInt i \<Rightarrow> [real_of_int i] | PyNum x \<Rightarrow> [x] | PyList vs \<Rightarrow> vs)"

text \<open>The voxels \<^verbatim>\<open>get_mean_roi\<close> averages: those of the label whose time series does not sum to zero.\<close>

definition roi_voxels :: "real ndarray \<Rightarrow> real ndarray \<Rightarrow> label \<Rightarrow> nat list" where
  "roi_voxels data msk val =
     filter (\<lambda>i. mask_value msk i \<in> set (label_values val) \<and> sum_list (rows data ! i) \<noteq> 0) [0..<shape0 data]"

section \<open>Scaling\<close>

text \<open>
  The arrays hold floating-point numbers, so \<^verbatim>\<open>/\<close> is true division. Division as numpy
  does it: dividing by zero is no error, it yields NaN for \<open>0 / 0\<close> and an infinity
  otherwise.
\<close>

definition true_divide :: "real \<Rightarrow> real \<Rightarrow> npfloat" where
  "true_divide x y =
     (if y \<noteq> 0 then Num (x / y) else if x = 0 then NaN else if x > 0 then PosInf else NegInf)"

text \<open>The mean of a row, as a real number (of a row with an entry at least).\<close>

definition row_mean :: "real list \<Rightarrow> real" where
  "row_mean r = sum_list r / real (length r)"

text \<open>\<^verbatim>\<open>np.mean(data, axis=1)\<close>: the mean of each row; NaN for a row with no entry.\<close>

definition np_mean1 :: "real ndarray \<Rightarrow> npfloat list" where
  "np_mean1 a = map (\<lambda>r. if r = [] then NaN else Num (row_mean r)) (rows a)"

text \<open>A finite number divided by a value that may not be finite.\<close>

fun divide_by :: "real \<Rightarrow> npfloat \<Rightarrow> npfloat" where
  "divide_by x (Num y) = true_divide x y"
| "divide_by x NaN = NaN"
| "divide_by x PosInf = Num 0"
| "divide_by x NegInf = Num 0"

text \<open>
  \<^verbatim>\<open>translate\<close>. The size check comes first. One factor divides every entry (numpy
  broadcasts the list of one number over the array); no factor divides every row by its
  mean (\<^verbatim>\<open>[:, None]\<close> makes the means a column). The \<^verbatim>\<open>if\<close>/\<^verbatim>\<open>elif\<close> has no third
  branch: with more than one factor the data are returned as they came.
\<close>

definition translate :: "real ndarray \<Rightarrow> real list \<Rightarrow> error + npfloat ndarray" where
  "translate data factors =
     (if length factors > 1 \<and> shape0 data \<noteq> length factors then Inl ShapeMismatch
      else if length factors = 1 then
        Inr \<lparr>ncols = ncols data, rows = map (map (\<lambda>x. true_divide x (hd factors))) (rows data)\<rparr>
      else if length factors = 0 then
        Inr \<lparr>ncols = ncols data,
          rows = map2 (\<lambda>r m. map (\<lambda>x. divide_by x m) r) (rows data) (np_mean1 data)\<rparr>
      else Inr \<lparr>ncols = ncols data, rows = map (map Num) (rows data)\<rparr>)"

text \<open>
  \<^verbatim>\<open>scale_timeseries\<close>: subtract the minimum, divide by the maximum of what is left.
  \<^verbatim>\<open>np.min\<close> raises on an empty series.
\<close>

definition scale_timeseries :: "real list \<Rightarrow> error + npfloat list" where
  "scale_timeseries ts =
     (if ts = [] then Inl ValueError
      else
        (let minimum = Min (set ts);
             ts' = map (\<lambda>x. x - minimum) ts;
             maximum = Max (set ts')
         in Inr (map (\<lambda>x. true_divide x maximum) ts')))"

section \<open>Correlation graph of the regions\<close>

text \<open>
  The list of regions of \<^verbatim>\<open>roi_graph\<close>: \<^verbatim>\<open>np.unique\<close> flattens the mask and returns its
  distinct values sorted; \<^verbatim>\<open>filter\<close> keeps those above zero, in that order.
\<close>

definition rois :: "real ndarray \<Rightarrow> real list" where
  "rois msk = filter (\<lambda>x. x > 0) (np_unique (concat (rows msk)))"

text \<open>
  The loop of \<^verbatim>\<open>roi_graph\<close> that fills row \<open>i\<close> of \<^verbatim>\<open>ts\<close> with the mean time series of
  the \<open>i\<close>-th region. A region is handed over as a numpy scalar, whose type is not
  \<^verbatim>\<open>int\<close>. An exception of \<^verbatim>\<open>get_mean_roi\<close> ends the loop.
\<close>

fun fill_ts :: "real ndarray \<Rightarrow> real ndarray \<Rightarrow> real list \<Rightarrow> error + npfloat list list" where
  "fill_ts data msk [] = Inr []"
| "fill_ts data msk (roi # rs) =
     (case get_mean_roi data msk (PyNum roi) of
        Inl e \<Rightarrow> Inl e
      | Inr v \<Rightarrow>
         (case fill_ts data msk rs of
            Inl e \<Rightarrow> Inl e
          | Inr vs \<Rightarrow> Inr (v # vs)))"

text \<open>
  \<^verbatim>\<open>np.corrcoef\<close> of an array of \<open>T\<close> columns: entry \<open>(i, j)\<close> is the covariance of rows
  \<open>i\<close> and \<open>j\<close> (normalised by \<open>T - 1\<close>) divided by the square root of the product of
  their variances. With fewer than two columns every covariance is NaN. A row with an
  entry that is not finite has a mean that is not finite, its deviations from the mean
  include a NaN, and every covariance it takes part in is NaN. For a single row numpy
  returns the one entry as a scalar; it is modelled as a matrix of one entry.

  This is the quotient numpy documents, taken in exact arithmetic. numpy computes it in
  double precision, and the rounding of its steps is not modelled: \<open>corr\<close> says which two
  series an entry of the matrix is computed from, not the last bit of the entry. The
  theorem on the graph uses it for that only. Whether a diagonal entry is exactly \<open>1\<close>,
  and whether two mirrored entries agree to the last bit, are questions about the doubles
  and are outside this model.
\<close>

fun finite_row :: "npfloat list \<Rightarrow> real list option" where
  "finite_row [] = Some []"
| "finite_row (Num x # xs) = (case finite_row xs of None \<Rightarrow> None | Some ys \<Rightarrow> Some (x # ys))"
| "finite_row (_ # xs) = None"

definition cov :: "nat \<Rightarrow> real list \<Rightarrow> real list \<Rightarrow> real" where
  "cov T a b = sum_list (map2 (\<lambda>x y. (x - row_mean a) * (y - row_mean b)) a b) / (real T - 1)"

definition pearson :: "nat \<Rightarrow> real list \<Rightarrow> real list \<Rightarrow> npfloat" where
  "pearson T a b = (if T \<le> 1 then NaN else true_divide (cov T a b) (sqrt (cov T a a * cov T b b)))"

definition corr :: "nat \<Rightarrow> npfloat list \<Rightarrow> npfloat list \<Rightarrow> npfloat" where
  "corr T x y =
     (case finite_row x of
        None \<Rightarrow> NaN
      | Some a \<Rightarrow> (case finite_row y of None \<Rightarrow> NaN | Some b \<Rightarrow> pearson T a b))"

definition np_corrcoef :: "npfloat ndarray \<Rightarrow> npfloat list list" where
  "np_corrcoef ts = map (\<lambda>x. map (\<lambda>y. corr (ncols ts) x y) (rows ts)) (rows ts)"

definition roi_graph :: "real ndarray \<Rightarrow> real ndarray \<Rightarrow> error + npfloat list list" where
  "roi_graph data msk =
     (case fill_ts data msk (rois msk) of
        Inl e \<Rightarrow> Inl e
      | Inr ts \<Rightarrow> Inr (np_corrcoef \<lparr>ncols = shape1 data, rows = ts\<rparr>))"

section \<open>Example\<close>

text \<open>The scenario used to instantiate the theorems: four voxels, three timepoints, two regions.\<close>

definition example_data :: "real ndarray" where
  "example_data = \<lparr>ncols = 3, rows = [[1, 2, 3], [0, 0, 0], [4, 5, 6], [7, 8, 9]]\<rparr>"

definition example_mask :: "real ndarray" where
  "example_mask = \<lparr>ncols = 1, rows = [[1], [1], [2], [2]]\<rparr>"

text \<open>A second one: three regions of one voxel each, and a background voxel.\<close>

definition graph_data :: "real ndarray" where
  "graph_data = \<lparr>ncols = 3, rows = [[2, 1, 3], [5, 5, 5], [1, 2, 3], [3, 2, 1]]\<rparr>"

definition graph_mask :: "real ndarray" where
  "graph_mask = \<lparr>ncols = 1, rows = [[7], [0], [2], [4]]\<rparr>"

text \<open>The correlations of its regions \<open>2\<close>, \<open>4\<close> and \<open>7\<close>, in this order, in exact arithmetic.\<close>

definition graph_G :: "npfloat list list" where
  "graph_G = [[Num 1, Num (-1), Num (1/2)], [Num (-1), Num 1, Num (-1/2)], [Num (1/2), Num (-1/2), Num 1]]"

section \<open>Properties of masking\<close>

lemma sorted_wrt_np_unique: "sorted_wrt (<) (np_unique xs)"
  by (simp add: np_unique_def strict_sorted_iff)

lemma set_np_unique: "set (np_unique xs) = set xs"
  by (simp add: np_unique_def)

lemma filter_id_empty: "(filter id r = []) = (True \<notin> set r)"
  by (induction r) auto

lemma set_np_where0: "set (np_where0 c) = {i. i < length c \<and> True \<in> set (c ! i)}"
  by (auto simp: np_where0_def set_replicate_conv_if filter_id_empty split: if_splits)

lemma set_np_where1: "set (np_where1 b) = {i. i < length b \<and> b ! i}"
  by (auto simp: np_where1_def)

lemma sorted_wrt_np_setdiff1d: "sorted_wrt (<) (np_setdiff1d a b)"
  by (simp add: np_setdiff1d_def sorted_wrt_filter sorted_wrt_np_unique)

lemma set_np_setdiff1d: "set (np_setdiff1d a b) = set a - set b"
  by (auto simp: np_setdiff1d_def set_np_unique)

lemma compute_idx_Cons:
  "valid_rule rule \<Longrightarrow> compute_idx msk rule (t # ts) idx =
     (case broadcast_cmp (rule_op rule) msk t of
        None \<Rightarrow> Inl ValueError
      | Some c \<Rightarrow> compute_idx msk rule ts (np_unique (idx @ np_where0 c)))"
  by (auto simp: valid_rule_def rule_op_def)

declare compute_idx.simps(2) [simp del]

lemma broadcast_cmp_length: "broadcast_cmp cmp msk t = Some c \<Longrightarrow> length c = shape0 msk"
  by (cases t) (auto simp: shape0_def split: if_splits)

lemma broadcast_cmp_ok: "ncols msk = 1 \<Longrightarrow> \<exists>c. broadcast_cmp cmp msk t = Some c"
  by (cases t) auto

lemma compute_idx_ok:
  "valid_rule rule \<Longrightarrow> ncols msk = 1 \<Longrightarrow> \<exists>idx'. compute_idx msk rule ts idx = Inr idx'"
proof (induction ts arbitrary: idx)
  case Nil
  show ?case by simp
next
  case (Cons t ts)
  obtain c where c: "broadcast_cmp (rule_op rule) msk t = Some c"
    using broadcast_cmp_ok [OF Cons.prems(2)] by blast
  show ?case
    using Cons.IH [OF Cons.prems] by (simp add: compute_idx_Cons [OF Cons.prems(1)] c)
qed

lemma compute_idx_bound:
  "valid_rule rule \<Longrightarrow> compute_idx msk rule ts idx = Inr idx' \<Longrightarrow>
   \<forall>i\<in>set idx. i < shape0 msk \<Longrightarrow> \<forall>i\<in>set idx'. i < shape0 msk"
proof (induction ts arbitrary: idx)
  case Nil
  then show ?case by simp
next
  case (Cons t ts)
  from Cons.prems(2) obtain c where c: "broadcast_cmp (rule_op rule) msk t = Some c"
    and r: "compute_idx msk rule ts (np_unique (idx @ np_where0 c)) = Inr idx'"
    by (auto simp: compute_idx_Cons [OF Cons.prems(1)] split: option.splits)
  have "\<forall>i\<in>set (np_unique (idx @ np_where0 c)). i < shape0 msk"
    using Cons.prems(3) broadcast_cmp_length [OF c] by (auto simp: set_np_unique set_np_where0)
  from Cons.IH [OF Cons.prems(1) r this] show ?case .
qed

lemma take_rows_ok:
  "\<forall>i\<in>set idx. i < shape0 a \<Longrightarrow>
   take_rows a idx = Inr \<lparr>ncols = ncols a, rows = map (\<lambda>i. rows a ! i) idx\<rparr>"
  by (simp add: take_rows_def list_all_iff)

text \<open>
  The result of \<^verbatim>\<open>maskdata\<close> once the four checks have passed: the index is what the
  loop collected without the zero-sum voxels, and the data are the rows at the index.
\<close>

lemma maskdata_checked:
  assumes "shape0 data = shape0 msk" and "ncols msk \<le> 1" and "valid_rule rule"
  shows "maskdata data msk rule (ThrList ts) =
     (case compute_idx msk rule ts [] of
        Inl e \<Rightarrow> Inl e
      | Inr idx0 \<Rightarrow>
         (let idx = np_setdiff1d idx0 (np_where1 (map (\<lambda>s. s = 0) (np_sum1 data)))
          in Inr (\<lparr>ncols = ncols data, rows = map (\<lambda>i. rows data ! i) idx\<rparr>, idx)))"
proof (cases "compute_idx msk rule ts []")
  case (Inl e)
  with assms show ?thesis
    by (simp add: maskdata_def check_dims_def check_mask_def shape1_def valid_rule_def)
next
  case (Inr idx0)
  have "\<forall>i\<in>set idx0. i < shape0 data"
    using compute_idx_bound [OF assms(3) Inr] assms(1) by simp
  then have "\<forall>i\<in>set (np_setdiff1d idx0 (np_where1 (map (\<lambda>s. s = 0) (np_sum1 data)))). i < shape0 data"
    by (simp add: set_np_setdiff1d)
  from take_rows_ok [OF this] Inr assms show ?thesis
    by (simp add: maskdata_def check_dims_def check_mask_def shape1_def valid_rule_def Let_def)
qed

lemma zero_sum_excluded:
  "i \<in> set (np_setdiff1d idx0 (np_where1 (map (\<lambda>s. s = 0) (np_sum1 data)))) \<Longrightarrow>
   i < shape0 data \<Longrightarrow> sum_list (rows data ! i) \<noteq> 0"
  by (auto simp: set_np_setdiff1d set_np_where1 np_sum1_def shape0_def)

lemma compute_idx_error: "compute_idx msk rule ts idx = Inl e \<Longrightarrow> e = ValueError"
proof (induction ts arbitrary: idx)
  case Nil
  then show ?case by simp
next
  case (Cons t ts)
  from Cons.prems Cons.IH show ?case
    by (auto simp: compute_idx.simps(2) split: if_splits option.splits)
qed

text \<open>
  C1. When the data and the mask have the same number of voxels, the mask holds one value
  per voxel, the rule is one of \<^verbatim>\<open>=\<close>, \<^verbatim>\<open>>\<close>, \<^verbatim>\<open><\<close> and the thresholds are a list,
  \<^verbatim>\<open>maskdata\<close> returns. The index it returns is strictly increasing (hence free of
  duplicates) and within the voxels of the data; no voxel whose time series sums to zero
  is in it, whatever the rule and the thresholds; and the data returned are the original
  rows at the indices, in the order of the index.
\<close>

theorem C1_maskdata_index:
  assumes "shape0 data = shape0 msk" and "shape1 msk = 1"
    and "rule = ''='' \<or> rule = ''>'' \<or> rule = ''<''"
  shows "\<exists>d idx. maskdata data msk rule (ThrList ts) = Inr (d, idx)
           \<and> sorted_wrt (<) idx \<and> distinct idx
           \<and> (\<forall>i\<in>set idx. i < shape0 data)
           \<and> (\<forall>i<shape0 data. sum_list (rows data ! i) = 0 \<longrightarrow> i \<notin> set idx)
           \<and> ncols d = ncols data
           \<and> rows d = map (\<lambda>i. rows data ! i) idx"
proof -
  have v: "valid_rule rule" and k: "ncols msk = 1" "ncols msk \<le> 1"
    using assms by (simp_all add: valid_rule_def shape1_def)
  obtain idx0 where idx0: "compute_idx msk rule ts [] = Inr idx0"
    using compute_idx_ok [OF v k(1)] by blast
  define idx where "idx = np_setdiff1d idx0 (np_where1 (map (\<lambda>s. s = 0) (np_sum1 data)))"
  have res: "maskdata data msk rule (ThrList ts) =
      Inr (\<lparr>ncols = ncols data, rows = map (\<lambda>i. rows data ! i) idx\<rparr>, idx)"
    by (simp add: maskdata_checked [OF assms(1) k(2) v] idx0 idx_def Let_def)
  have s: "sorted_wrt (<) idx"
    unfolding idx_def by (rule sorted_wrt_np_setdiff1d)
  then have d: "distinct idx"
    by (simp add: strict_sorted_iff)
  have "\<forall>i\<in>set idx0. i < shape0 msk"
    using compute_idx_bound [OF v idx0] by simp
  then have b: "\<forall>i\<in>set idx. i < shape0 data"
    by (simp add: idx_def set_np_setdiff1d assms(1))
  have z: "\<forall>i<shape0 data. sum_list (rows data ! i) = 0 \<longrightarrow> i \<notin> set idx"
    unfolding idx_def using zero_sum_excluded by blast
  from res s d b z show ?thesis by simp
qed

theorem C1_maskdata_index_witness:
  "shape0 example_data = shape0 example_mask \<and> shape1 example_mask = 1
   \<and> (\<exists>d idx. maskdata example_data example_mask ''>'' (ThrList [Scalar 0]) = Inr (d, idx)
           \<and> sorted_wrt (<) idx \<and> distinct idx
           \<and> (\<forall>i\<in>set idx. i < shape0 example_data)
           \<and> (\<forall>i<shape0 example_data. sum_list (rows example_data ! i) = 0 \<longrightarrow> i \<notin> set idx)
           \<and> ncols d = ncols example_data
           \<and> rows d = map (\<lambda>i. rows example_data ! i) idx)"
proof -
  have h1: "shape0 example_data = shape0 example_mask"
    by (simp add: shape0_def example_data_def example_mask_def)
  have h2: "shape1 example_mask = 1"
    by (simp add: shape1_def example_mask_def)
  have h3: "''>'' = ''='' \<or> ''>'' = ''>'' \<or> ''>'' = ''<''"
    by simp
  from C1_maskdata_index [OF h1 h2 h3, of "[Scalar 0]"] h1 h2 show ?thesis
    by simp
qed

text \<open>
  C5. When the data and the mask pass the two shape checks, \<^verbatim>\<open>maskdata\<close> fails with an
  invalid-argument error exactly when the rule is none of \<^verbatim>\<open>=\<close>, \<^verbatim>\<open>>\<close>, \<^verbatim>\<open><\<close> or the
  thresholds are not a list. The failure is the whole result: no data and no index are
  returned.
\<close>

theorem C5_maskdata_invalid_argument:
  assumes "shape0 data = shape0 msk" and "shape1 msk \<le> 1"
  shows "(\<exists>a. maskdata data msk rule threshold = Inl (InvalidArgument a))
     \<longleftrightarrow> (\<not> (rule = ''='' \<or> rule = ''>'' \<or> rule = ''<'') \<or> (\<exists>x. threshold = Bare x))"
proof (cases "valid_rule rule")
  case False
  with assms show ?thesis
    by (simp add: maskdata_def check_dims_def check_mask_def valid_rule_def)
next
  case True
  show ?thesis
  proof (cases threshold)
    case (Bare x)
    with assms True show ?thesis
      by (simp add: maskdata_def check_dims_def check_mask_def valid_rule_def)
  next
    case (ThrList ts)
    have k: "ncols msk \<le> 1"
      using assms(2) by (simp add: shape1_def)
    have "maskdata data msk rule (ThrList ts) \<noteq> Inl (InvalidArgument a)" for a
      using compute_idx_error [of msk rule ts "[]"]
      by (auto simp: maskdata_checked [OF assms(1) k True] Let_def split: sum.splits)
    with True ThrList show ?thesis
      by (simp add: valid_rule_def)
  qed
qed

theorem C5_maskdata_invalid_argument_witness:
  "shape0 example_data = shape0 example_mask \<and> shape1 example_mask \<le> 1
   \<and> (\<exists>a. maskdata example_data example_mask ''>'' (Bare 0) = Inl (InvalidArgument a))
   \<and> (\<exists>a. maskdata example_data example_mask ''>='' (ThrList [Scalar 0]) = Inl (InvalidArgument a))
   \<and> \<not> (\<exists>a. maskdata example_data example_mask ''>'' (ThrList [Scalar 0]) = Inl (InvalidArgument a))"
proof -
  have h1: "shape0 example_data = shape0 example_mask"
    by (simp add: shape0_def example_data_def example_mask_def)
  have h2: "shape1 example_mask \<le> 1"
    by (simp add: shape1_def example_mask_def)
  from C5_maskdata_invalid_argument [OF h1 h2, of "''>''" "Bare 0"]
    C5_maskdata_invalid_argument [OF h1 h2, of "''>=''" "ThrList [Scalar 0]"]
    C5_maskdata_invalid_argument [OF h1 h2, of "''>''" "ThrList [Scalar 0]"]
    h1 h2 show ?thesis
    by simp
qed

lemma wf_row1:
  "wf_array msk \<Longrightarrow> ncols msk = 1 \<Longrightarrow> i < shape0 msk \<Longrightarrow> rows msk ! i = [mask_value msk i]"
  by (cases "rows msk ! i") (auto simp: wf_array_def list_all_length shape0_def mask_value_def)

lemma broadcast_eq_hit:
  assumes "wf_array msk" and "ncols msk = 1" and "i < shape0 msk"
    and "broadcast_cmp (\<lambda>m v. m = v) msk t = Some c"
  shows "(True \<in> set (c ! i)) = (mask_value msk i \<in> set (elem_values t))"
proof -
  note r = wf_row1 [OF assms(1,2,3)]
  have i: "i < length (rows msk)" using assms(3) by (simp add: shape0_def)
  show ?thesis
  proof (cases t)
    case (Scalar v)
    with assms(4) i r show ?thesis by (auto simp: elem_values_def)
  next
    case (Vec vs)
    show ?thesis
    proof (cases "length vs = 1")
      case True
      then obtain v where "vs = [v]" by (cases vs) auto
      with Vec assms(2,4) i r show ?thesis by (auto simp: elem_values_def)
    next
      case False
      with Vec assms(2,4) i r show ?thesis by (auto simp: elem_values_def)
    qed
  qed
qed

lemma strict_sorted_filter_upt:
  assumes "sorted_wrt (<) xs" and "set xs = {i. i < n \<and> P i}"
  shows "xs = filter P [0..<n]"
proof (rule strict_sorted_equal [OF _ assms(1)])
  show "sorted_wrt (<) (filter P [0..<n])" by (simp add: sorted_wrt_filter)
  show "set xs = set (filter P [0..<n])" using assms(2) by auto
qed

lemma maskdata_equal_single:
  assumes "shape0 data = shape0 msk" and "wf_array msk" and "ncols msk = 1"
  shows "maskdata data msk ''='' (ThrList [t]) =
     Inr (\<lparr>ncols = ncols data, rows = map (\<lambda>i. rows data ! i)
            (filter (\<lambda>i. mask_value msk i \<in> set (elem_values t) \<and> sum_list (rows data ! i) \<noteq> 0) [0..<shape0 data])\<rparr>,
          filter (\<lambda>i. mask_value msk i \<in> set (elem_values t) \<and> sum_list (rows data ! i) \<noteq> 0) [0..<shape0 data])"
proof -
  have v: "valid_rule ''=''" by (simp add: valid_rule_def)
  have op: "rule_op ''='' = (\<lambda>m v. m = v)" by (simp add: rule_op_def)
  obtain c where c: "broadcast_cmp (\<lambda>m v. m = v) msk t = Some c"
    using broadcast_cmp_ok [OF assms(3)] by blast
  have len: "length c = shape0 data"
    using broadcast_cmp_length [OF c] assms(1) by simp
  have idx0: "compute_idx msk ''='' [t] [] = Inr (np_unique (np_where0 c))"
    by (simp add: compute_idx_Cons [OF v] op c)
  define idx where "idx = np_setdiff1d (np_unique (np_where0 c)) (np_where1 (map (\<lambda>s. s = 0) (np_sum1 data)))"
  have "set idx = {i. i < shape0 data \<and> (mask_value msk i \<in> set (elem_values t) \<and> sum_list (rows data ! i) \<noteq> 0)}"
    using broadcast_eq_hit [OF assms(2,3) _ c] len assms(1)
    by (auto simp: idx_def set_np_setdiff1d set_np_unique set_np_where0 set_np_where1 np_sum1_def shape0_def)
  then have "idx = filter (\<lambda>i. mask_value msk i \<in> set (elem_values t) \<and> sum_list (rows data ! i) \<noteq> 0) [0..<shape0 data]"
    by (rule strict_sorted_filter_upt [rotated]) (simp add: idx_def sorted_wrt_np_setdiff1d)
  then show ?thesis
    using assms by (simp add: maskdata_checked [OF assms(1) _ v] idx0 Let_def idx_def)
qed

lemma get_mean_roi_eq:
  assumes "shape0 data = shape0 msk" and "wf_array msk" and "ncols msk = 1"
  shows "get_mean_roi data msk val =
     Inr (np_nanmean0 \<lparr>ncols = ncols data, rows = map (\<lambda>i. rows data ! i) (roi_voxels data msk val)\<rparr>)"
  by (cases val)
    (simp_all add: get_mean_roi_def maskdata_equal_single [OF assms] roi_voxels_def
      elem_values_def label_values_def)

lemma np_nanmean0_no_rows: "rows a = [] \<Longrightarrow> np_nanmean0 a = replicate (ncols a) NaN"
  by (simp add: np_nanmean0_def map_replicate_const)

text \<open>
  C2. The claim as stated fails: \<^verbatim>\<open>maskdata\<close> drops the voxels whose time series sums to
  zero before the mean is taken, so the mean of \<^verbatim>\<open>get_mean_roi\<close> is over fewer rows than
  the direct mean over the rows of the label. In the example, region 1 holds the rows
  \<open>[1, 2, 3]\<close> and \<open>[0, 0, 0]\<close>: \<^verbatim>\<open>get_mean_roi\<close> answers \<open>[1, 2, 3]\<close>, the direct mean is
  \<open>[0.5, 1, 1.5]\<close>.
\<close>

theorem C2_get_mean_roi_counterexample:
  "get_mean_roi example_data example_mask (PyInt 1) \<noteq> Inr (mean_where_equal example_data example_mask 1)"
proof -
  have "get_mean_roi example_data example_mask (PyInt 1) = Inr [Num 1, Num 2, Num 3]"
    by code_simp
  moreover have "mean_where_equal example_data example_mask 1 = [Num (1/2), Num 1, Num (3/2)]"
    by code_simp
  ultimately show ?thesis by simp
qed

text \<open>
  C2, amended. When the data and the mask have the same number of voxels and the mask
  holds one value per voxel, \<^verbatim>\<open>get_mean_roi\<close> for the value \<open>v\<close> (given as a Python
  \<^verbatim>\<open>int\<close> or as any other number) yields the column-wise mean over the rows whose mask
  value equals \<open>v\<close> and whose time series does not sum to zero.
\<close>

theorem C2_get_mean_roi_amended:
  assumes "shape0 data = shape0 msk" and "wf_array msk" and "shape1 msk = 1"
  shows "get_mean_roi data msk (PyNum v) = Inr (mean_where_equal_nonzero data msk v)
       \<and> get_mean_roi data msk (PyInt n) = Inr (mean_where_equal_nonzero data msk (real_of_int n))"
proof -
  have k: "ncols msk = 1" using assms(3) by (simp add: shape1_def)
  show ?thesis
    by (simp add: get_mean_roi_eq [OF assms(1,2) k] roi_voxels_def label_values_def
        mean_where_equal_nonzero_def)
qed

theorem C2_get_mean_roi_amended_witness:
  "shape0 example_data = shape0 example_mask \<and> wf_array example_mask \<and> shape1 example_mask = 1
   \<and> get_mean_roi example_data example_mask (PyNum 2) = Inr (mean_where_equal_nonzero example_data example_mask 2)
   \<and> get_mean_roi example_data example_mask (PyInt 1) = Inr (mean_where_equal_nonzero example_data example_mask 1)
   \<and> mean_where_equal_nonzero example_data example_mask 1 = [Num 1, Num 2, Num 3]"
proof -
  have h1: "shape0 example_data = shape0 example_mask"
    by (simp add: shape0_def example_data_def example_mask_def)
  have h2: "wf_array example_mask"
    by (simp add: wf_array_def example_mask_def)
  have h3: "shape1 example_mask = 1"
    by (simp add: shape1_def example_mask_def)
  have v: "mean_where_equal_nonzero example_data example_mask 1 = [Num 1, Num 2, Num 3]"
    by code_simp
  from C2_get_mean_roi_amended [OF h1 h2 h3, of 2 1] h1 h2 h3 v show ?thesis
    by simp
qed

text \<open>
  C6. When the data and the mask have the same number of voxels and the mask holds one
  value per voxel, and no voxel of the label is left once the voxels whose time series
  sums to zero are excluded, \<^verbatim>\<open>get_mean_roi\<close> returns, and what it returns is one NaN per
  timepoint.
\<close>

theorem C6_get_mean_roi_empty_selection:
  assumes "shape0 data = shape0 msk" and "wf_array msk" and "shape1 msk = 1"
    and "roi_voxels data msk val = []"
  shows "get_mean_roi data msk val = Inr (replicate (shape1 data) NaN)"
proof -
  have k: "ncols msk = 1" using assms(3) by (simp add: shape1_def)
  show ?thesis
    by (simp add: get_mean_roi_eq [OF assms(1,2) k] assms(4) np_nanmean0_no_rows shape1_def)
qed

theorem C6_get_mean_roi_empty_selection_witness:
  "shape0 example_data = shape0 example_mask \<and> wf_array example_mask \<and> shape1 example_mask = 1
   \<and> roi_voxels example_data example_mask (PyInt 3) = []
   \<and> get_mean_roi example_data example_mask (PyInt 3) = Inr [NaN, NaN, NaN]"
proof -
  have h1: "shape0 example_data = shape0 example_mask"
    by (simp add: shape0_def example_data_def example_mask_def)
  have h2: "wf_array example_mask"
    by (simp add: wf_array_def example_mask_def)
  have h3: "shape1 example_mask = 1"
    by (simp add: shape1_def example_mask_def)
  have h4: "roi_voxels example_data example_mask (PyInt 3) = []"
    by code_simp
  have t: "replicate (shape1 example_data) NaN = [NaN, NaN, NaN]"
    by (simp add: shape1_def example_data_def numeral_3_eq_3)
  from C6_get_mean_roi_empty_selection [OF h1 h2 h3 h4] h1 h2 h3 h4 t show ?thesis
    by simp
qed

section \<open>Properties of scaling\<close>

lemma translate_many_factors:
  "length factors > 1 \<Longrightarrow> translate data factors =
     (if shape0 data \<noteq> length factors then Inl ShapeMismatch
      else Inr \<lparr>ncols = ncols data, rows = map (map Num) (rows data)\<rparr>)"
  by (auto simp: translate_def)

text \<open>
  C3. The size check of \<^verbatim>\<open>translate\<close> is as claimed (the lemma above), the scaling
  is not: two rows with the two factors \<open>2, 2\<close> come back as they were, not halved.
\<close>

theorem C3_translate_factors_ignored:
  "translate \<lparr>ncols = 2, rows = [[2, 4], [6, 8]]\<rparr> [2, 2]
     = Inr \<lparr>ncols = 2, rows = [[Num 2, Num 4], [Num 6, Num 8]]\<rparr>"
  by (simp add: translate_def shape0_def)

text \<open>
  C4. With no factors, and every row of mean other than zero, \<^verbatim>\<open>translate\<close> returns
  every row divided, entry by entry, by the mean of that row. The row \<open>[2, 4, 6]\<close>, of
  mean \<open>4\<close>, becomes \<open>[0.5, 1, 1.5]\<close>, not \<open>[-2, 0, 2]\<close>.
\<close>

theorem C4_translate_divides_by_mean:
  assumes "\<forall>r\<in>set (rows data). row_mean r \<noteq> 0"
  shows "translate data [] =
     Inr \<lparr>ncols = ncols data, rows = map (\<lambda>r. map (\<lambda>x. Num (x / row_mean r)) r) (rows data)\<rparr>"
proof -
  have ne: "r \<noteq> []" if "r \<in> set (rows data)" for r
    using assms that by (auto simp: row_mean_def)
  have "map2 (\<lambda>r m. map (\<lambda>x. divide_by x m) r) (rows data) (np_mean1 data)
      = map (\<lambda>r. map (\<lambda>x. Num (x / row_mean r)) r) (rows data)"
    using assms ne by (simp add: np_mean1_def zip_map2 map_zip_map2 true_divide_def zip_same_conv_map cong: map_cong)
  then show ?thesis by (simp add: translate_def)
qed

theorem C4_translate_divides_by_mean_witness:
  "row_mean [2, 4, 6] = 4
   \<and> translate \<lparr>ncols = 3, rows = [[2, 4, 6]]\<rparr> [] = Inr \<lparr>ncols = 3, rows = [[Num (1/2), Num 1, Num (3/2)]]\<rparr>
   \<and> translate \<lparr>ncols = 3, rows = [[2, 4, 6]]\<rparr> [] \<noteq> Inr \<lparr>ncols = 3, rows = [[Num (-2), Num 0, Num 2]]\<rparr>"
proof -
  have m: "row_mean [2, 4, 6] = 4"
    by (simp add: row_mean_def)
  then have h: "\<forall>r\<in>set (rows \<lparr>ncols = 3, rows = [[2, 4, 6::real]]\<rparr>). row_mean r \<noteq> 0"
    by simp
  from C4_translate_divides_by_mean [OF h] m show ?thesis
    by simp
qed

lemma scale_timeseries_unit:
  assumes "ys \<noteq> []" and "Min (set ys) = 0" and "Max (set ys) = 1"
  shows "scale_timeseries ys = Inr (map Num ys)"
  using assms by (simp add: scale_timeseries_def Let_def true_divide_def)

text \<open>
  C9. For a series that is not constant, \<^verbatim>\<open>scale_timeseries\<close> returns a series of
  finite numbers of minimum \<open>0\<close> and maximum \<open>1\<close>, and applied to that series it returns
  the same series again.
\<close>

theorem C9_scale_timeseries_idempotent:
  assumes "\<exists>x\<in>set ts. \<exists>y\<in>set ts. x \<noteq> y"
  shows "\<exists>ys. scale_timeseries ts = Inr (map Num ys) \<and> scale_timeseries ys = Inr (map Num ys)
           \<and> Min (set ys) = 0 \<and> Max (set ys) = 1"
proof -
  define m where "m = Min (set ts)"
  define ts' where "ts' = map (\<lambda>x. x - m) ts"
  define M where "M = Max (set ts')"
  define ys where "ys = map (\<lambda>x. x / M) ts'"
  from assms have ne: "ts \<noteq> []" by auto
  then have ne': "ts' \<noteq> []" by (simp add: ts'_def)
  have m_in: "m \<in> set ts" unfolding m_def using ne by (intro Min_in) auto
  have m_le: "m \<le> x" if "x \<in> set ts" for x
    unfolding m_def using that by (intro Min_le) auto
  from assms obtain x where x: "x \<in> set ts" "x \<noteq> m" by metis
  have M_in: "M \<in> set ts'" unfolding M_def using ne' by (intro Max_in) auto
  have le_M: "z \<le> M" if "z \<in> set ts'" for z
    unfolding M_def using that by (intro Max_ge) auto
  have "x - m \<in> set ts'" using x(1) by (auto simp: ts'_def)
  from le_M [OF this] m_le [OF x(1)] x(2) have M_pos: "0 < M" by simp
  have nonneg: "0 \<le> z" if "z \<in> set ts'" for z
    using that m_le by (auto simp: ts'_def)
  have first: "scale_timeseries ts = Inr (map Num ys)"
    using ne M_pos
    by (simp add: scale_timeseries_def Let_def true_divide_def ys_def ts'_def M_def m_def)
  have nys: "ys \<noteq> []" using ne' by (simp add: ys_def)
  have "0 \<in> set ts'" using m_in by (force simp: ts'_def)
  then have zero_in: "0 \<in> set ys" by (force simp: ys_def)
  have one_in: "1 \<in> set ys" using M_in M_pos by (force simp: ys_def)
  have lower: "0 \<le> y" if "y \<in> set ys" for y
    using that nonneg M_pos by (auto simp: ys_def)
  have upper: "y \<le> 1" if "y \<in> set ys" for y
    using that le_M M_pos by (auto simp: ys_def)
  have mn: "Min (set ys) = 0"
    using zero_in lower by (intro Min_eqI) auto
  have mx: "Max (set ys) = 1"
    using one_in upper by (intro Max_eqI) auto
  from first scale_timeseries_unit [OF nys mn mx] mn mx show ?thesis by blast
qed

theorem C9_scale_timeseries_idempotent_witness:
  "(\<exists>x\<in>set [3, 5, 4::real]. \<exists>y\<in>set [3, 5, 4::real]. x \<noteq> y)
   \<and> (\<exists>ys. scale_timeseries [3, 5, 4] = Inr (map Num ys) \<and> scale_timeseries ys = Inr (map Num ys)
           \<and> Min (set ys) = 0 \<and> Max (set ys) = 1)
   \<and> scale_timeseries [3, 5, 4] = Inr [Num 0, Num 1, Num (1/2)]
   \<and> scale_timeseries [0, 1, 1/2] = Inr [Num 0, Num 1, Num (1/2)]"
proof -
  have h: "\<exists>x\<in>set [3, 5, 4::real]. \<exists>y\<in>set [3, 5, 4::real]. x \<noteq> y"
    by (rule bexI [of _ 3], rule bexI [of _ 5]) simp_all
  have e1: "scale_timeseries [3, 5, 4] = Inr [Num 0, Num 1, Num (1/2)]"
    by (simp add: scale_timeseries_def true_divide_def)
  have e2: "scale_timeseries [0, 1, 1/2] = Inr [Num 0, Num 1, Num (1/2)]"
    by (simp add: scale_timeseries_def true_divide_def)
  from C9_scale_timeseries_idempotent [OF h] h e1 e2 show ?thesis
    by blast
qed

section \<open>Properties of the correlation graph\<close>

lemma sorted_wrt_rois: "sorted_wrt (<) (rois msk)"
  by (simp add: rois_def sorted_wrt_filter sorted_wrt_np_unique)

lemma set_rois: "set (rois msk) = {x \<in> set (concat (rows msk)). x > 0}"
  by (auto simp: rois_def set_np_unique)

lemma fill_ts_nth:
  "fill_ts data msk rs = Inr ts \<Longrightarrow>
   length ts = length rs \<and> (\<forall>i<length rs. get_mean_roi data msk (PyNum (rs ! i)) = Inr (ts ! i))"
proof (induction rs arbitrary: ts)
  case Nil
  then show ?case by simp
next
  case (Cons roi rs)
  from Cons.prems obtain v vs where v: "get_mean_roi data msk (PyNum roi) = Inr v"
    and vs: "fill_ts data msk rs = Inr vs" and ts: "ts = v # vs"
    by (auto split: sum.splits)
  from Cons.IH [OF vs] v ts show ?case
    by (auto simp: nth_Cons split: nat.splits)
qed

lemma np_corrcoef_nth:
  "i < length (rows ts) \<Longrightarrow> j < length (rows ts) \<Longrightarrow>
   np_corrcoef ts ! i ! j = corr (ncols ts) (rows ts ! i) (rows ts ! j)"
  by (simp add: np_corrcoef_def)

lemma length_np_corrcoef: "length (np_corrcoef ts) = length (rows ts)"
  by (simp add: np_corrcoef_def)

lemma length_np_corrcoef_nth: "i < length (rows ts) \<Longrightarrow> length (np_corrcoef ts ! i) = length (rows ts)"
  by (simp add: np_corrcoef_def)

lemma roi_graph_entries:
  assumes "roi_graph data msk = Inr G"
  shows "\<exists>ts. length ts = length (rois msk) \<and> length G = length (rois msk)
    \<and> (\<forall>i<length (rois msk). get_mean_roi data msk (PyNum (rois msk ! i)) = Inr (ts ! i)
          \<and> length (G ! i) = length (rois msk)
          \<and> (\<forall>j<length (rois msk). G ! i ! j = corr (shape1 data) (ts ! i) (ts ! j)))"
proof -
  from assms obtain ts where ts: "fill_ts data msk (rois msk) = Inr ts"
    and G: "G = np_corrcoef \<lparr>ncols = shape1 data, rows = ts\<rparr>"
    by (auto simp: roi_graph_def split: sum.splits)
  from fill_ts_nth [OF ts] show ?thesis
    by (intro exI [of _ ts]) (simp add: G np_corrcoef_nth length_np_corrcoef length_np_corrcoef_nth)
qed

lemma graph_rois: "rois graph_mask = [2, 4, 7]"
  by code_simp

lemma graph_fill_ts:
  "fill_ts graph_data graph_mask [2, 4, 7] =
     Inr [[Num 1, Num 2, Num 3], [Num 3, Num 2, Num 1], [Num 2, Num 1, Num 3]]"
  by code_simp

lemma graph_corrcoef:
  "np_corrcoef \<lparr>ncols = 3, rows = [[Num 1, Num 2, Num 3], [Num 3, Num 2, Num 1], [Num 2, Num 1, Num 3]]\<rparr>
     = graph_G"
  by (simp add: np_corrcoef_def corr_def pearson_def cov_def row_mean_def true_divide_def graph_G_def)

lemma graph_roi_graph: "roi_graph graph_data graph_mask = Inr graph_G"
proof -
  have "shape1 graph_data = 3" by (simp add: shape1_def graph_data_def)
  then show ?thesis
    unfolding roi_graph_def graph_rois graph_fill_ts by (simp add: graph_corrcoef)
qed

text \<open>
  C7. The region list of \<^verbatim>\<open>roi_graph\<close> is strictly increasing and holds exactly the
  values of the mask above zero. When \<^verbatim>\<open>roi_graph\<close> returns, the matrix has one row and
  one column per region, and entry \<open>(i, j)\<close> is the correlation of the mean time series of
  the \<open>i\<close>-th and the \<open>j\<close>-th region of the list.
\<close>

theorem C7_roi_graph_regions:
  "sorted_wrt (<) (rois msk) \<and> set (rois msk) = {x \<in> set (concat (rows msk)). x > 0}
   \<and> (\<forall>G. roi_graph data msk = Inr G \<longrightarrow>
         length G = length (rois msk)
         \<and> (\<forall>i<length (rois msk). length (G ! i) = length (rois msk)
               \<and> (\<forall>j<length (rois msk). \<exists>x y.
                     get_mean_roi data msk (PyNum (rois msk ! i)) = Inr x
                     \<and> get_mean_roi data msk (PyNum (rois msk ! j)) = Inr y
                     \<and> G ! i ! j = corr (shape1 data) x y)))"
proof (intro conjI allI impI)
  show "sorted_wrt (<) (rois msk)" by (rule sorted_wrt_rois)
  show "set (rois msk) = {x \<in> set (concat (rows msk)). x > 0}" by (rule set_rois)
next
  fix G assume "roi_graph data msk = Inr G"
  from roi_graph_entries [OF this] obtain ts where ts: "length G = length (rois msk)"
    "\<forall>i<length (rois msk). get_mean_roi data msk (PyNum (rois msk ! i)) = Inr (ts ! i)
          \<and> length (G ! i) = length (rois msk)
          \<and> (\<forall>j<length (rois msk). G ! i ! j = corr (shape1 data) (ts ! i) (ts ! j))"
    by blast
  show "length G = length (rois msk)" by (rule ts(1))
  fix i assume i: "i < length (rois msk)"
  with ts(2) show "length (G ! i) = length (rois msk)" by blast
  fix j assume j: "j < length (rois msk)"
  from ts(2) i j show "\<exists>x y. get_mean_roi data msk (PyNum (rois msk ! i)) = Inr x
                     \<and> get_mean_roi data msk (PyNum (rois msk ! j)) = Inr y
                     \<and> G ! i ! j = corr (shape1 data) x y"
    by blast
qed

theorem C7_roi_graph_regions_witness:
  "rois graph_mask = [2, 4, 7] \<and> roi_graph graph_data graph_mask = Inr graph_G
   \<and> sorted_wrt (<) (rois graph_mask)
   \<and> set (rois graph_mask) = {x \<in> set (concat (rows graph_mask)). x > 0}
   \<and> length graph_G = length (rois graph_mask)
   \<and> length (graph_G ! 1) = length (rois graph_mask)
   \<and> (\<exists>x y. get_mean_roi graph_data graph_mask (PyNum (rois graph_mask ! 1)) = Inr x
           \<and> get_mean_roi graph_data graph_mask (PyNum (rois graph_mask ! 2)) = Inr y
           \<and> graph_G ! 1 ! 2 = corr (shape1 graph_data) x y)"
proof -
  have i: "1 < length (rois graph_mask)" and j: "2 < length (rois graph_mask)"
    by (simp_all add: graph_rois)
  from C7_roi_graph_regions [of graph_mask graph_data] graph_roi_graph graph_rois i j
  show ?thesis
    by blast
qed

end
